theory Spec2Isabelle
  imports Complex_Main
begin

section \<open>JavaScript values\<close>

text \<open>
  The file under verification, \<^verbatim>\<open>implementors/core/ops/drop/trait.Drop.js\<close>, is one
  immediately-invoked function: it builds an object \<^verbatim>\<open>implementors\<close> by seven property
  assignments and then hands that object either to \<^verbatim>\<open>window.register_implementors\<close> or
  to \<^verbatim>\<open>window.pending_implementors\<close>.

  JavaScript is dynamically typed, so values are one datatype. An object is the list of
  its own string-keyed properties in creation order (the order \<^verbatim>\<open>Object.keys\<close> reports for
  keys that are not array indices; no key of this script is one). A function value is an
  identity \<open>fid\<close>; what calling it does is given by the host, see below.
\<close>

datatype js_number = NaN | PosInfinity | NegInfinity | NegZero | Finite rat

type_synonym fid = nat

datatype js_value =
    JUndefined
  | JNull
  | JBool bool
  | JNumber js_number
  | JBigInt int
  | JString string
  | JSymbol string
  | JArray "js_value list"
  | JObject "(string \<times> js_value) list"
  | JFunction fid

text \<open>\<^verbatim>\<open>ToBoolean\<close>, the test an \<^verbatim>\<open>if\<close> applies to its condition.\<close>

fun to_boolean :: "js_value \<Rightarrow> bool" where
  "to_boolean JUndefined = False"
| "to_boolean JNull = False"
| "to_boolean (JBool b) = b"
| "to_boolean (JNumber n) =
     (case n of NaN \<Rightarrow> False | NegZero \<Rightarrow> False | Finite q \<Rightarrow> q \<noteq> 0 | _ \<Rightarrow> True)"
| "to_boolean (JBigInt i) = (i \<noteq> 0)"
| "to_boolean (JString s) = (s \<noteq> [])"
| "to_boolean (JSymbol s) = True"
| "to_boolean (JArray xs) = True"
| "to_boolean (JObject ps) = True"
| "to_boolean (JFunction f) = True"

text \<open>
  \<^verbatim>\<open>obj[k] = v\<close> on an ordinary object: an existing property keeps its place and takes
  the new value, a new property is created after all the others.
\<close>

fun put_prop :: "(string \<times> js_value) list \<Rightarrow> string \<Rightarrow> js_value \<Rightarrow> (string \<times> js_value) list" where
  "put_prop [] k v = [(k, v)]"
| "put_prop ((k', v') # ps) k v =
     (if k' = k then (k, v) # ps else (k', v') # put_prop ps k v)"

text \<open>\<^verbatim>\<open>Object.keys(v)\<close>, \<^verbatim>\<open>v[k]\<close> (\<^verbatim>\<open>undefined\<close> when there is no such property) and
  the elements of an array.\<close>

fun keys_of :: "js_value \<Rightarrow> string list" where
  "keys_of (JObject ps) = map fst ps"
| "keys_of _ = []"

fun get_member :: "js_value \<Rightarrow> string \<Rightarrow> js_value" where
  "get_member (JObject ps) k = (case map_of ps k of Some v \<Rightarrow> v | None \<Rightarrow> JUndefined)"
| "get_member _ k = JUndefined"

fun elements :: "js_value \<Rightarrow> js_value list" where
  "elements (JArray xs) = xs"
| "elements _ = []"

section \<open>The implementor table\<close>

text \<open>
  The right-hand sides of the seven assignments, as the source writes them: an array
  literal of object literals, each with the properties \<^verbatim>\<open>text\<close>, \<^verbatim>\<open>synthetic\<close> and
  \<^verbatim>\<open>types\<close> in that order. An escaped double quote of the source is the double quote
  character here; the markup entities such as \<^verbatim>\<open>&lt;\<close> are ordinary characters of the
  string. The trailing comma of each array literal adds no element.
\<close>

definition bzip2_literal :: js_value where
  \<open>bzip2_literal =
     JArray
     [JObject [(''text'', JString ''impl&lt;W:&nbsp;<a class="trait" href="https://doc.rust-lang.org/nightly/std/io/trait.Write.html" title="trait std::io::Write">Write</a>&gt; <a class="trait" href="https://doc.rust-lang.org/nightly/core/ops/drop/trait.Drop.html" title="trait core::ops::drop::Drop">Drop</a> for <a class="struct" href="bzip2/write/struct.BzEncoder.html" title="struct bzip2::write::BzEncoder">BzEncoder</a>&lt;W&gt;''),
               (''synthetic'', JBool False),
               (''types'', JArray [JString ''bzip2::write::BzEncoder''])],
      JObject [(''text'', JString ''impl&lt;W:&nbsp;<a class="trait" href="https://doc.rust-lang.org/nightly/std/io/trait.Write.html" title="trait std::io::Write">Write</a>&gt; <a class="trait" href="https://doc.rust-lang.org/nightly/core/ops/drop/trait.Drop.html" title="trait core::ops::drop::Drop">Drop</a> for <a class="struct" href="bzip2/write/struct.BzDecoder.html" title="struct bzip2::write::BzDecoder">BzDecoder</a>&lt;W&gt;''),
               (''synthetic'', JBool False),
               (''types'', JArray [JString ''bzip2::write::BzDecoder''])]]\<close>

definition flate2_literal :: js_value where
  \<open>flate2_literal =
     JArray
     [JObject [(''text'', JString ''impl&lt;W:&nbsp;<a class="trait" href="https://doc.rust-lang.org/nightly/std/io/trait.Write.html" title="trait std::io::Write">Write</a>&gt; <a class="trait" href="https://doc.rust-lang.org/nightly/core/ops/drop/trait.Drop.html" title="trait core::ops::drop::Drop">Drop</a> for <a class="struct" href="flate2/write/struct.GzEncoder.html" title="struct flate2::write::GzEncoder">GzEncoder</a>&lt;W&gt;''),
               (''synthetic'', JBool False),
               (''types'', JArray [JString ''flate2::gz::write::GzEncoder''])]]\<close>

definition generic_array_literal :: js_value where
  \<open>generic_array_literal =
     JArray
     [JObject [(''text'', JString ''impl&lt;T, N&gt; <a class="trait" href="https://doc.rust-lang.org/nightly/core/ops/drop/trait.Drop.html" title="trait core::ops::drop::Drop">Drop</a> for <a class="struct" href="generic_array/iter/struct.GenericArrayIter.html" title="struct generic_array::iter::GenericArrayIter">GenericArrayIter</a>&lt;T, N&gt; <span class="where fmt-newline">where<br>&nbsp;&nbsp;&nbsp;&nbsp;N: <a class="trait" href="generic_array/trait.ArrayLength.html" title="trait generic_array::ArrayLength">ArrayLength</a>&lt;T&gt;,&nbsp;</span>''),
               (''synthetic'', JBool False),
               (''types'', JArray [JString ''generic_array::iter::GenericArrayIter''])]]\<close>

definition regex_syntax_literal :: js_value where
  \<open>regex_syntax_literal =
     JArray
     [JObject [(''text'', JString ''impl <a class="trait" href="https://doc.rust-lang.org/nightly/core/ops/drop/trait.Drop.html" title="trait core::ops::drop::Drop">Drop</a> for <a class="enum" href="regex_syntax/ast/enum.Ast.html" title="enum regex_syntax::ast::Ast">Ast</a>''),
               (''synthetic'', JBool False),
               (''types'', JArray [JString ''regex_syntax::ast::Ast''])],
      JObject [(''text'', JString ''impl <a class="trait" href="https://doc.rust-lang.org/nightly/core/ops/drop/trait.Drop.html" title="trait core::ops::drop::Drop">Drop</a> for <a class="enum" href="regex_syntax/ast/enum.ClassSet.html" title="enum regex_syntax::ast::ClassSet">ClassSet</a>''),
               (''synthetic'', JBool False),
               (''types'', JArray [JString ''regex_syntax::ast::ClassSet''])],
      JObject [(''text'', JString ''impl <a class="trait" href="https://doc.rust-lang.org/nightly/core/ops/drop/trait.Drop.html" title="trait core::ops::drop::Drop">Drop</a> for <a class="struct" href="regex_syntax/hir/struct.Hir.html" title="struct regex_syntax::hir::Hir">Hir</a>''),
               (''synthetic'', JBool False),
               (''types'', JArray [JString ''regex_syntax::hir::Hir''])]]\<close>

definition syn_literal :: js_value where
  \<open>syn_literal =
     JArray
     [JObject [(''text'', JString ''impl&lt;'a&gt; <a class="trait" href="https://doc.rust-lang.org/nightly/core/ops/drop/trait.Drop.html" title="trait core::ops::drop::Drop">Drop</a> for <a class="struct" href="syn/parse/struct.ParseBuffer.html" title="struct syn::parse::ParseBuffer">ParseBuffer</a>&lt;'a&gt;''),
               (''synthetic'', JBool False),
               (''types'', JArray [JString ''syn::parse::ParseBuffer''])]]\<close>

definition thread_local_literal :: js_value where
  \<open>thread_local_literal =
     JArray
     [JObject [(''text'', JString ''impl&lt;T:&nbsp;?<a class="trait" href="https://doc.rust-lang.org/nightly/core/marker/trait.Sized.html" title="trait core::marker::Sized">Sized</a> + <a class="trait" href="https://doc.rust-lang.org/nightly/core/marker/trait.Send.html" title="trait core::marker::Send">Send</a>&gt; <a class="trait" href="https://doc.rust-lang.org/nightly/core/ops/drop/trait.Drop.html" title="trait core::ops::drop::Drop">Drop</a> for <a class="struct" href="thread_local/struct.ThreadLocal.html" title="struct thread_local::ThreadLocal">ThreadLocal</a>&lt;T&gt;''),
               (''synthetic'', JBool False),
               (''types'', JArray [JString ''thread_local::ThreadLocal''])]]\<close>

definition zip_literal :: js_value where
  \<open>zip_literal =
     JArray
     [JObject [(''text'', JString ''impl&lt;'a&gt; <a class="trait" href="https://doc.rust-lang.org/nightly/core/ops/drop/trait.Drop.html" title="trait core::ops::drop::Drop">Drop</a> for <a class="struct" href="zip/read/struct.ZipFile.html" title="struct zip::read::ZipFile">ZipFile</a>&lt;'a&gt;''),
               (''synthetic'', JBool False),
               (''types'', JArray [JString ''zip::read::ZipFile''])],
      JObject [(''text'', JString ''impl&lt;W:&nbsp;<a class="trait" href="https://doc.rust-lang.org/nightly/std/io/trait.Write.html" title="trait std::io::Write">Write</a> + <a class="trait" href="https://doc.rust-lang.org/nightly/std/io/trait.Seek.html" title="trait std::io::Seek">Seek</a>&gt; <a class="trait" href="https://doc.rust-lang.org/nightly/core/ops/drop/trait.Drop.html" title="trait core::ops::drop::Drop">Drop</a> for <a class="struct" href="zip/write/struct.ZipWriter.html" title="struct zip::write::ZipWriter">ZipWriter</a>&lt;W&gt;''),
               (''synthetic'', JBool False),
               (''types'', JArray [JString ''zip::write::ZipWriter''])]]\<close>
text \<open>
  \<^verbatim>\<open>var implementors = {};\<close> followed by the assignments
  \<^verbatim>\<open>implementors["bzip2"] = ...;\<close> to \<^verbatim>\<open>implementors["zip"] = ...;\<close> in source order.
  The variable is local to the enclosing function, so building the table touches no
  global.
\<close>

definition implementors :: js_value where
  "implementors =
     (let obj = [];
          obj = put_prop obj ''bzip2'' bzip2_literal;
          obj = put_prop obj ''flate2'' flate2_literal;
          obj = put_prop obj ''generic_array'' generic_array_literal;
          obj = put_prop obj ''regex_syntax'' regex_syntax_literal;
          obj = put_prop obj ''syn'' syn_literal;
          obj = put_prop obj ''thread_local'' thread_local_literal;
          obj = put_prop obj ''zip'' zip_literal
      in JObject obj)"

text \<open>All records of a table: the elements of every key's array, key after key.\<close>

definition records_of :: "js_value \<Rightarrow> js_value list" where
  "records_of t = concat (map (\<lambda>k. elements (get_member t k)) (keys_of t))"

section \<open>Global state, callbacks and the registration shim\<close>

text \<open>
  The global object \<^verbatim>\<open>window\<close> maps property names to values; a name that is not there
  reads as \<^verbatim>\<open>undefined\<close>. Its properties are taken to be ordinary writable data
  properties (no accessors), as the two slots of this handshake are. The field \<open>host\<close> is
  whatever else a callback can read or change: the document, the consumer's private
  state.
\<close>

record 'h world =
  window :: "string \<rightharpoonup> js_value"
  host :: 'h

definition get_global :: "'h world \<Rightarrow> string \<Rightarrow> js_value" where
  "get_global w k = (case window w k of Some v \<Rightarrow> v | None \<Rightarrow> JUndefined)"

definition set_global :: "'h world \<Rightarrow> string \<Rightarrow> js_value \<Rightarrow> 'h world" where
  "set_global w k v = w\<lparr>window := (window w)(k \<mapsto> v)\<rparr>"

text \<open>
  The callback is not code of this file: it belongs to the page that loads it. What a call
  of function \<open>f\<close> with arguments \<open>args\<close> does in world \<open>w\<close> is therefore a parameter
  \<open>\<Phi>\<close> of the model: the call returns a value and leaves a world, throws a value and
  leaves a world, or never returns.
\<close>

datatype 'h call_result =
    Return js_value "'h world"
  | Throw js_value "'h world"
  | Diverge

type_synonym 'h host_semantics = "fid \<Rightarrow> js_value list \<Rightarrow> 'h world \<Rightarrow> 'h call_result"

text \<open>
  What can be thrown out of the script: the engine's \<^verbatim>\<open>TypeError\<close> for calling a value
  that is not a function, or whatever the callback threw. The script has no
  \<^verbatim>\<open>try\<close>, so either ends it.
\<close>

datatype thrown = TypeError | Thrown js_value

datatype 'h outcome =
    Completed "'h world"
  | Threw thrown "'h world"
  | Hangs

text \<open>
  To speak of how often the callback is invoked, a run also reports the script's own
  actions on the two slots, in the order it performs them: the calls it makes (callee and
  argument list) and the properties of \<^verbatim>\<open>window\<close> it assigns. What a callback does
  inside its call is not the script's action; it shows in the world the call leaves.
\<close>

datatype event =
    Invoke fid "js_value list"
  | Store string js_value

text \<open>A call used as an expression statement: the returned value is dropped.\<close>

fun outcome_of :: "'h call_result \<Rightarrow> 'h outcome" where
  "outcome_of (Return v w') = Completed w'"
| "outcome_of (Throw e w') = Threw (Thrown e) w'"
| "outcome_of Diverge = Hangs"

definition call_value ::
  "'h host_semantics \<Rightarrow> js_value \<Rightarrow> js_value list \<Rightarrow> 'h world \<Rightarrow> event list \<times> 'h outcome" where
  "call_value \<Phi> callee args w =
     (case callee of
        JFunction f \<Rightarrow> ([Invoke f args], outcome_of (\<Phi> f args w))
      | _ \<Rightarrow> ([], Threw TypeError w))"

text \<open>
  The shim, as written:
  \<^verbatim>\<open>if (window.register_implementors) { window.register_implementors(implementors); }
  else { window.pending_implementors = implementors; }\<close>
  The slot is read twice, once for the test and once for the call; nothing runs between
  the two reads. The table is handed over as the value it has at that moment.
\<close>

definition registration_shim ::
  "'h host_semantics \<Rightarrow> js_value \<Rightarrow> 'h world \<Rightarrow> event list \<times> 'h outcome" where
  "registration_shim \<Phi> table w =
     (if to_boolean (get_global w ''register_implementors'')
      then call_value \<Phi> (get_global w ''register_implementors'') [table] w
      else ([Store ''pending_implementors'' table],
            Completed (set_global w ''pending_implementors'' table)))"

text \<open>The whole function body: build the table, then run the shim on it.\<close>

definition script :: "'h host_semantics \<Rightarrow> 'h world \<Rightarrow> event list \<times> 'h outcome" where
  "script \<Phi> w = registration_shim \<Phi> implementors w"

section \<open>Observations on a run\<close>

fun invocations :: "event list \<Rightarrow> (fid \<times> js_value list) list" where
  "invocations [] = []"
| "invocations (Invoke f args # es) = (f, args) # invocations es"
| "invocations (Store k v # es) = invocations es"

fun stores :: "event list \<Rightarrow> (string \<times> js_value) list" where
  "stores [] = []"
| "stores (Invoke f args # es) = stores es"
| "stores (Store k v # es) = (k, v) # stores es"

fun payload :: "event \<Rightarrow> js_value list" where
  "payload (Invoke f args) = args"
| "payload (Store k v) = [v]"

fun terminated :: "'h outcome \<Rightarrow> bool" where
  "terminated Hangs = False"
| "terminated (Completed w) = True"
| "terminated (Threw e w) = True"

fun is_function :: "js_value \<Rightarrow> bool" where
  "is_function (JFunction f) = True"
| "is_function _ = False"

text \<open>
  One run touches exactly one slot: it invokes the callback once and writes nothing, or
  it invokes nothing and writes once, to the pending slot.
\<close>

definition touches_exactly_one :: "event list \<Rightarrow> bool" where
  "touches_exactly_one tr \<longleftrightarrow>
     (length (invocations tr) = 1 \<and> stores tr = []) \<or>
     (invocations tr = [] \<and> map fst (stores tr) = [''pending_implementors''])"

text \<open>The two slots of a world, and of the world an outcome leaves.\<close>

definition slots :: "'h world \<Rightarrow> js_value \<times> js_value" where
  "slots w = (get_global w ''register_implementors'', get_global w ''pending_implementors'')"

fun final_slots :: "'h outcome \<Rightarrow> (js_value \<times> js_value) option" where
  "final_slots (Completed w) = Some (slots w)"
| "final_slots (Threw e w) = Some (slots w)"
| "final_slots Hangs = None"

section \<open>Shape of an implementor record\<close>

fun is_string :: "js_value \<Rightarrow> bool" where
  "is_string (JString s) = True"
| "is_string _ = False"

fun is_boolean :: "js_value \<Rightarrow> bool" where
  "is_boolean (JBool b) = True"
| "is_boolean _ = False"

text \<open>A path \<^verbatim>\<open>a::b::c\<close> cut at every \<^verbatim>\<open>::\<close>.\<close>

fun segments :: "string \<Rightarrow> string list" where
  "segments [] = [] # []"
| "segments [c] = [c] # []"
| "segments (c # d # cs) =
     (if c = CHR '':'' \<and> d = CHR '':'' then [] # segments cs
      else (case segments (d # cs) of [] \<Rightarrow> [c] # [] | s # ss \<Rightarrow> (c # s) # ss))"

definition is_identifier :: "string \<Rightarrow> bool" where
  "is_identifier s \<longleftrightarrow>
     s \<noteq> [] \<and>
     list_all (\<lambda>c. c \<in> set ''abcdefghijklmnopqrstuvwxyzABCDEFGHIJKLMNOPQRSTUVWXYZ0123456789_'') s"

text \<open>A fully-qualified name: at least a crate and an item, every segment an identifier.\<close>

definition is_qualified_name :: "js_value \<Rightarrow> bool" where
  "is_qualified_name v \<longleftrightarrow>
     (case v of
        JString s \<Rightarrow> 2 \<le> length (segments s) \<and> list_all is_identifier (segments s)
      | _ \<Rightarrow> False)"

definition is_implementor_record :: "js_value \<Rightarrow> bool" where
  "is_implementor_record r \<longleftrightarrow>
     keys_of r = [''text'', ''synthetic'', ''types''] \<and>
     is_string (get_member r ''text'') \<and>
     is_boolean (get_member r ''synthetic'') \<and>
     (case get_member r ''types'' of
        JArray ts \<Rightarrow> list_all is_qualified_name ts
      | _ \<Rightarrow> False)"

section \<open>Sample worlds and hosts\<close>

definition blank_world :: "unit world" where
  "blank_world = \<lparr>window = Map.empty, host = ()\<rparr>"

definition hooked_world :: "unit world" where
  "hooked_world = \<lparr>window = [''register_implementors'' \<mapsto> JFunction 0], host = ()\<rparr>"

definition nulled_world :: "unit world" where
  "nulled_world = \<lparr>window = [''register_implementors'' \<mapsto> JNull], host = ()\<rparr>"

definition stale_world :: "unit world" where
  "stale_world = \<lparr>window = [''pending_implementors'' \<mapsto> JString ''old''], host = ()\<rparr>"

definition flagged_world :: "unit world" where
  "flagged_world = \<lparr>window = [''register_implementors'' \<mapsto> JBool True], host = ()\<rparr>"

text \<open>A consumer that keeps what it is given, one that throws, and one that never returns.\<close>

definition keeping_host :: "unit host_semantics" where
  "keeping_host f args w = Return JUndefined (set_global w ''received'' (JArray args))"

definition throwing_host :: "unit host_semantics" where
  "throwing_host f args w = Throw (JString ''boom'') w"

definition looping_host :: "unit host_semantics" where
  "looping_host f args w = Diverge"

text \<open>
  Two pages that agree on both slots and differ in another global, and a consumer whose
  effect on the pending slot depends on that global.
\<close>

definition other_a_world :: "unit world" where
  "other_a_world =
     \<lparr>window = [''register_implementors'' \<mapsto> JFunction 0, ''other'' \<mapsto> JString ''a''],
      host = ()\<rparr>"

definition other_b_world :: "unit world" where
  "other_b_world =
     \<lparr>window = [''register_implementors'' \<mapsto> JFunction 0, ''other'' \<mapsto> JString ''b''],
      host = ()\<rparr>"

definition copying_host :: "unit host_semantics" where
  "copying_host f args w =
     Return JUndefined (set_global w ''pending_implementors'' (get_global w ''other''))"

text \<open>A consumer that keeps its argument and clears that other global.\<close>

definition clearing_host :: "unit host_semantics" where
  "clearing_host f args w =
     Return JUndefined (set_global (set_global w ''other'' JUndefined) ''received'' (JArray args))"

section \<open>Facts about values, the table and the shim\<close>

lemmas literal_defs =
  bzip2_literal_def flate2_literal_def generic_array_literal_def regex_syntax_literal_def
  syn_literal_def thread_local_literal_def zip_literal_def

text \<open>An assignment never duplicates a key: it overwrites in place or appends.\<close>

lemma put_prop_keys:
  "map fst (put_prop ps k v) = (if k \<in> fst ` set ps then map fst ps else map fst ps @ [k])"
  by (induction ps) force+

lemma put_prop_distinct:
  "distinct (map fst ps) \<Longrightarrow> distinct (map fst (put_prop ps k v))"
  by (simp add: put_prop_keys)

lemma put_prop_lookup:
  "map_of (put_prop ps k v) = (map_of ps)(k \<mapsto> v)"
  by (induction ps) auto

text \<open>The seven assignments hit seven different keys, so each one appends.\<close>

lemma implementors_props:
  "implementors =
     JObject [(''bzip2'', bzip2_literal), (''flate2'', flate2_literal),
              (''generic_array'', generic_array_literal), (''regex_syntax'', regex_syntax_literal),
              (''syn'', syn_literal), (''thread_local'', thread_local_literal),
              (''zip'', zip_literal)]"
  by (simp add: implementors_def)

lemma records_of_implementors:
  "records_of implementors =
     elements bzip2_literal @ elements flate2_literal @ elements generic_array_literal @
     elements regex_syntax_literal @ elements syn_literal @ elements thread_local_literal @
     elements zip_literal"
  by (simp add: implementors_props records_of_def)

text \<open>The falsy values, all of them.\<close>

lemma falsy_values:
  "\<not> to_boolean v \<longleftrightarrow>
     v \<in> {JUndefined, JNull, JBool False, JNumber NaN, JNumber NegZero, JNumber (Finite 0),
          JBigInt 0, JString []}"
  by (cases v) (auto split: js_number.splits)

text \<open>The three ways a run can go, by what the callback slot holds.\<close>

lemma script_pending_branch:
  "\<not> to_boolean (get_global w ''register_implementors'') \<Longrightarrow>
   script \<Phi> w =
     ([Store ''pending_implementors'' implementors],
      Completed (set_global w ''pending_implementors'' implementors))"
  by (simp add: script_def registration_shim_def)

lemma script_call_branch:
  "get_global w ''register_implementors'' = JFunction f \<Longrightarrow>
   script \<Phi> w = ([Invoke f [implementors]], outcome_of (\<Phi> f [implementors] w))"
  by (simp add: script_def registration_shim_def call_value_def)

lemma script_type_error:
  "to_boolean (get_global w ''register_implementors'') \<Longrightarrow>
   \<not> is_function (get_global w ''register_implementors'') \<Longrightarrow>
   script \<Phi> w = ([], Threw TypeError w)"
  by (cases "get_global w ''register_implementors''")
     (simp_all add: script_def registration_shim_def call_value_def)

lemma slot_cases:
  "\<not> to_boolean (get_global w ''register_implementors'') \<or>
   (\<exists>f. get_global w ''register_implementors'' = JFunction f) \<or>
   (to_boolean (get_global w ''register_implementors'') \<and>
    \<not> is_function (get_global w ''register_implementors''))"
  by (cases "get_global w ''register_implementors''") auto

section \<open>The callback branch\<close>

text \<open>
  C1. When \<^verbatim>\<open>window.register_implementors\<close> holds a callback \<open>f\<close> before the script runs,
  the run consists of exactly one call, of \<open>f\<close>, with the argument list made of the full
  table and nothing else. The call is made in the world the script started in and the
  run ends as that call ends, in the world the call leaves: the script assigns nothing,
  so the pending slot is as the callback left it.
\<close>

theorem callback_invoked_once_with_table:
  assumes "window w ''register_implementors'' = Some (JFunction f)"
  shows "script \<Phi> w = ([Invoke f [implementors]], outcome_of (\<Phi> f [implementors] w)) \<and>
         invocations (fst (script \<Phi> w)) = [(f, [implementors])] \<and>
         stores (fst (script \<Phi> w)) = []"
proof -
  from assms have "get_global w ''register_implementors'' = JFunction f"
    by (simp add: get_global_def)
  then have "script \<Phi> w = ([Invoke f [implementors]], outcome_of (\<Phi> f [implementors] w))"
    by (rule script_call_branch)
  then show ?thesis by simp
qed

text \<open>With a consumer that stores its argument elsewhere, the pending slot stays undefined.\<close>

theorem callback_invoked_once_with_table_witness:
  "window hooked_world ''register_implementors'' = Some (JFunction 0) \<and>
   fst (script keeping_host hooked_world) = [Invoke 0 [implementors]] \<and>
   final_slots (snd (script keeping_host hooked_world)) = Some (JFunction 0, JUndefined)"
  using callback_invoked_once_with_table [of hooked_world 0 keeping_host]
  by (simp add: hooked_world_def keeping_host_def set_global_def get_global_def slots_def)

text \<open>
  C6. The script handles no error. When the callback it invokes throws \<open>e\<close>, leaving
  world \<open>w'\<close>, the run ends by throwing that same \<open>e\<close> in that same world, after the one
  call: no second call, and no assignment to the pending slot.
\<close>

theorem callback_exception_propagates:
  assumes "window w ''register_implementors'' = Some (JFunction f)"
      and "\<Phi> f [implementors] w = Throw e w'"
  shows "script \<Phi> w = ([Invoke f [implementors]], Threw (Thrown e) w') \<and>
         stores (fst (script \<Phi> w)) = []"
proof -
  from assms(1) have "get_global w ''register_implementors'' = JFunction f"
    by (simp add: get_global_def)
  then have "script \<Phi> w = ([Invoke f [implementors]], outcome_of (\<Phi> f [implementors] w))"
    by (rule script_call_branch)
  with assms(2) show ?thesis by simp
qed

theorem callback_exception_propagates_witness:
  "window hooked_world ''register_implementors'' = Some (JFunction 0) \<and>
   throwing_host 0 [implementors] hooked_world = Throw (JString ''boom'') hooked_world \<and>
   script throwing_host hooked_world =
     ([Invoke 0 [implementors]], Threw (Thrown (JString ''boom'')) hooked_world)"
  using callback_exception_propagates
    [of hooked_world 0 throwing_host "JString ''boom''" hooked_world]
  by (simp add: hooked_world_def throwing_host_def)

section \<open>The pending branch\<close>

text \<open>
  C2. When \<^verbatim>\<open>window.register_implementors\<close> is empty before the script runs (the
  property is absent, or it holds \<^verbatim>\<open>undefined\<close> or \<^verbatim>\<open>null\<close>), the run consists of
  exactly one assignment, of the full table to \<^verbatim>\<open>window.pending_implementors\<close>; it
  completes in the starting world changed in that one property, and it calls nothing.
\<close>

theorem pending_slot_set_when_callback_absent:
  assumes "window w ''register_implementors'' = None \<or>
           window w ''register_implementors'' = Some JUndefined \<or>
           window w ''register_implementors'' = Some JNull"
  shows "script \<Phi> w =
           ([Store ''pending_implementors'' implementors],
            Completed (w\<lparr>window := (window w)(''pending_implementors'' \<mapsto> implementors)\<rparr>)) \<and>
         invocations (fst (script \<Phi> w)) = [] \<and>
         get_global (w\<lparr>window := (window w)(''pending_implementors'' \<mapsto> implementors)\<rparr>)
           ''pending_implementors'' = implementors"
proof -
  from assms have "\<not> to_boolean (get_global w ''register_implementors'')"
    by (auto simp: get_global_def)
  then show ?thesis
    by (simp add: script_pending_branch set_global_def get_global_def)
qed

theorem pending_slot_set_when_callback_absent_witness:
  "window blank_world ''register_implementors'' = None \<and>
   fst (script keeping_host blank_world) = [Store ''pending_implementors'' implementors] \<and>
   final_slots (snd (script keeping_host blank_world)) = Some (JUndefined, implementors)"
  using pending_slot_set_when_callback_absent [of blank_world keeping_host]
  by (simp add: blank_world_def get_global_def slots_def)

text \<open>
  C8. The test is truthiness, not presence. When \<^verbatim>\<open>window.register_implementors\<close> is
  there but holds a falsy value \<open>v\<close>, the run is the pending branch: one assignment of the
  table to \<^verbatim>\<open>window.pending_implementors\<close> and no call. \<^verbatim>\<open>null\<close>, \<^verbatim>\<open>undefined\<close>,
  \<^verbatim>\<open>0\<close>, the empty string, \<^verbatim>\<open>false\<close> and \<^verbatim>\<open>NaN\<close> are such values.
\<close>

theorem falsy_callback_takes_pending_branch:
  "(window w ''register_implementors'' = Some v \<and> \<not> to_boolean v \<longrightarrow>
      script \<Phi> w =
        ([Store ''pending_implementors'' implementors],
         Completed (w\<lparr>window := (window w)(''pending_implementors'' \<mapsto> implementors)\<rparr>))) \<and>
   \<not> to_boolean JNull \<and> \<not> to_boolean JUndefined \<and> \<not> to_boolean (JNumber (Finite 0)) \<and>
   \<not> to_boolean (JString []) \<and> \<not> to_boolean (JBool False) \<and> \<not> to_boolean (JNumber NaN)"
proof -
  have "script \<Phi> w =
        ([Store ''pending_implementors'' implementors],
         Completed (w\<lparr>window := (window w)(''pending_implementors'' \<mapsto> implementors)\<rparr>))"
    if "window w ''register_implementors'' = Some v" and "\<not> to_boolean v"
  proof -
    from that have "\<not> to_boolean (get_global w ''register_implementors'')"
      by (simp add: get_global_def)
    then show ?thesis
      by (simp add: script_pending_branch set_global_def)
  qed
  then show ?thesis by simp
qed

theorem falsy_callback_takes_pending_branch_witness:
  "window nulled_world ''register_implementors'' = Some JNull \<and> \<not> to_boolean JNull \<and>
   fst (script keeping_host nulled_world) = [Store ''pending_implementors'' implementors] \<and>
   final_slots (snd (script keeping_host nulled_world)) = Some (JNull, implementors)"
  using falsy_callback_takes_pending_branch [of nulled_world JNull keeping_host]
  by (simp add: nulled_world_def get_global_def slots_def)

section \<open>One slot per run\<close>

text \<open>
  C3, for the states in which the callback slot holds a function or a falsy value: one
  run touches exactly one of the two slots. With a function \<open>f\<close> it makes the one call
  and ends as the call ends, adding no change of its own to the world the call leaves;
  with a falsy value it makes the one assignment and completes in the starting world
  changed in \<^verbatim>\<open>pending_implementors\<close> alone. In the remaining states, a truthy value
  that is not a function, the call attempt throws \<^verbatim>\<open>TypeError\<close>: nothing is invoked,
  nothing is assigned, and the world is the starting world.
\<close>

theorem shim_touches_one_slot:
  "(is_function (get_global w ''register_implementors'') \<or>
    \<not> to_boolean (get_global w ''register_implementors'') \<longrightarrow>
      touches_exactly_one (fst (script \<Phi> w))) \<and>
   (\<forall>f. get_global w ''register_implementors'' = JFunction f \<longrightarrow>
      script \<Phi> w = ([Invoke f [implementors]], outcome_of (\<Phi> f [implementors] w))) \<and>
   (\<not> to_boolean (get_global w ''register_implementors'') \<longrightarrow>
      script \<Phi> w =
        ([Store ''pending_implementors'' implementors],
         Completed (w\<lparr>window := (window w)(''pending_implementors'' \<mapsto> implementors)\<rparr>))) \<and>
   (to_boolean (get_global w ''register_implementors'') \<and>
    \<not> is_function (get_global w ''register_implementors'') \<longrightarrow>
      script \<Phi> w = ([], Threw TypeError w))"
proof (intro conjI impI allI)
  assume "is_function (get_global w ''register_implementors'') \<or>
          \<not> to_boolean (get_global w ''register_implementors'')"
  then show "touches_exactly_one (fst (script \<Phi> w))"
  proof
    assume "is_function (get_global w ''register_implementors'')"
    then obtain f where "get_global w ''register_implementors'' = JFunction f"
      by (cases "get_global w ''register_implementors''") auto
    then show ?thesis
      by (simp add: script_call_branch touches_exactly_one_def)
  next
    assume "\<not> to_boolean (get_global w ''register_implementors'')"
    then show ?thesis
      by (simp add: script_pending_branch touches_exactly_one_def)
  qed
next
  fix f assume "get_global w ''register_implementors'' = JFunction f"
  then show "script \<Phi> w = ([Invoke f [implementors]], outcome_of (\<Phi> f [implementors] w))"
    by (rule script_call_branch)
next
  assume "\<not> to_boolean (get_global w ''register_implementors'')"
  then show "script \<Phi> w =
        ([Store ''pending_implementors'' implementors],
         Completed (w\<lparr>window := (window w)(''pending_implementors'' \<mapsto> implementors)\<rparr>))"
    by (simp add: script_pending_branch set_global_def)
next
  assume "to_boolean (get_global w ''register_implementors'') \<and>
          \<not> is_function (get_global w ''register_implementors'')"
  then show "script \<Phi> w = ([], Threw TypeError w)"
    by (simp add: script_type_error)
qed

theorem shim_touches_one_slot_witness:
  "is_function (get_global hooked_world ''register_implementors'') \<and>
   touches_exactly_one (fst (script keeping_host hooked_world)) \<and>
   \<not> to_boolean (get_global blank_world ''register_implementors'') \<and>
   touches_exactly_one (fst (script keeping_host blank_world))"
proof -
  have hooked: "is_function (get_global hooked_world ''register_implementors'')"
    by (simp add: hooked_world_def get_global_def)
  have blank: "\<not> to_boolean (get_global blank_world ''register_implementors'')"
    by (simp add: blank_world_def get_global_def)
  from hooked shim_touches_one_slot [of hooked_world keeping_host]
  have "touches_exactly_one (fst (script keeping_host hooked_world))" by blast
  moreover from blank shim_touches_one_slot [of blank_world keeping_host]
  have "touches_exactly_one (fst (script keeping_host blank_world))" by blast
  ultimately show ?thesis using hooked blank by simp
qed

text \<open>
  Without the restriction the statement fails: with \<^verbatim>\<open>window.register_implementors = true\<close>
  the test succeeds, the call throws \<^verbatim>\<open>TypeError\<close> before anything is invoked, and the
  pending slot is never written.
\<close>

theorem neither_slot_touched_counterexample:
  "\<not> touches_exactly_one (fst (script keeping_host flagged_world)) \<and>
   script keeping_host flagged_world = ([], Threw TypeError flagged_world)"
proof -
  have "script keeping_host flagged_world = ([], Threw TypeError flagged_world)"
    by (rule script_type_error) (simp_all add: flagged_world_def get_global_def)
  then show ?thesis by (simp add: touches_exactly_one_def)
qed

section \<open>Termination\<close>

text \<open>
  C7, with the callback taken into account: the script body is the table construction
  followed by one run of the shim, it performs at most one action on the slots, and it
  ends (by completing or by throwing) in every case but one, that the callback slot holds
  a function whose call on the table never returns. The script has no loop of its own;
  whether it ends is decided by the callback alone.
\<close>

theorem script_terminates_unless_callback_hangs:
  "(terminated (snd (script \<Phi> w)) \<longleftrightarrow>
      \<not> (\<exists>f. get_global w ''register_implementors'' = JFunction f \<and>
               \<Phi> f [implementors] w = Diverge)) \<and>
   script \<Phi> w = registration_shim \<Phi> implementors w \<and>
   length (fst (script \<Phi> w)) \<le> 1"
proof -
  consider (falsy) "\<not> to_boolean (get_global w ''register_implementors'')"
    | (callee) f where "get_global w ''register_implementors'' = JFunction f"
    | (other) "to_boolean (get_global w ''register_implementors'')"
              "\<not> is_function (get_global w ''register_implementors'')"
    using slot_cases [of w] by blast
  then have "(terminated (snd (script \<Phi> w)) \<longleftrightarrow>
      \<not> (\<exists>f. get_global w ''register_implementors'' = JFunction f \<and>
               \<Phi> f [implementors] w = Diverge)) \<and>
      length (fst (script \<Phi> w)) \<le> 1"
  proof cases
    case falsy
    then have "\<And>f. get_global w ''register_implementors'' \<noteq> JFunction f" by auto
    with falsy show ?thesis by (simp add: script_pending_branch)
  next
    case callee
    then have "script \<Phi> w = ([Invoke f [implementors]], outcome_of (\<Phi> f [implementors] w))"
      by (rule script_call_branch)
    with callee show ?thesis by (cases "\<Phi> f [implementors] w") simp_all
  next
    case other
    then have "\<And>f. get_global w ''register_implementors'' \<noteq> JFunction f" by auto
    with other show ?thesis by (simp add: script_type_error)
  qed
  then show ?thesis by (simp add: script_def)
qed

theorem script_terminates_unless_callback_hangs_witness:
  "terminated (snd (script keeping_host hooked_world)) \<and>
   length (fst (script keeping_host hooked_world)) \<le> 1"
proof -
  have "\<not> (\<exists>f. get_global hooked_world ''register_implementors'' = JFunction f \<and>
             keeping_host f [implementors] hooked_world = Diverge)"
    by (simp add: keeping_host_def)
  with script_terminates_unless_callback_hangs [of keeping_host hooked_world]
  show ?thesis by blast
qed

text \<open>
  Taken unconditionally the statement fails: a callback that never returns keeps the
  script from ever finishing.
\<close>

theorem hanging_callback_counterexample:
  "\<not> terminated (snd (script looping_host hooked_world))"
proof -
  have "get_global hooked_world ''register_implementors'' = JFunction 0"
    by (simp add: hooked_world_def get_global_def)
  then have "script looping_host hooked_world =
      ([Invoke 0 [implementors]], outcome_of (looping_host 0 [implementors] hooked_world))"
    by (rule script_call_branch)
  then show ?thesis by (simp add: looping_host_def)
qed

section \<open>Determinism\<close>

text \<open>
  C10, as far as the shim decides it. Two states with the same value in the callback
  slot give the same sequence of calls and assignments, with the same table as payload:
  the shim reads the callback slot and nothing else. When that value is a function, the
  run ends exactly as the call ends, so the two runs end in the same state whenever the
  call on the table has the same result in both states; the shim adds no difference of
  its own. When no function is called and the two states agree on both slots, both slots
  agree afterwards. From one and the same state the two runs are the same.
\<close>

theorem shim_deterministic:
  "(get_global w1 ''register_implementors'' = get_global w2 ''register_implementors'' \<longrightarrow>
      fst (script \<Phi> w1) = fst (script \<Phi> w2)) \<and>
   (\<forall>f. get_global w1 ''register_implementors'' = JFunction f \<and>
        get_global w2 ''register_implementors'' = JFunction f \<longrightarrow>
        fst (script \<Phi> w1) = [Invoke f [implementors]] \<and>
        snd (script \<Phi> w1) = outcome_of (\<Phi> f [implementors] w1) \<and>
        snd (script \<Phi> w2) = outcome_of (\<Phi> f [implementors] w2) \<and>
        (\<Phi> f [implementors] w1 = \<Phi> f [implementors] w2 \<longrightarrow> script \<Phi> w1 = script \<Phi> w2)) \<and>
   (slots w1 = slots w2 \<and> \<not> is_function (get_global w1 ''register_implementors'') \<longrightarrow>
      final_slots (snd (script \<Phi> w1)) = final_slots (snd (script \<Phi> w2))) \<and>
   (w1 = w2 \<longrightarrow> script \<Phi> w1 = script \<Phi> w2)"
proof (intro conjI impI allI)
  assume same: "get_global w1 ''register_implementors'' = get_global w2 ''register_implementors''"
  consider (falsy) "\<not> to_boolean (get_global w1 ''register_implementors'')"
    | (callee) f where "get_global w1 ''register_implementors'' = JFunction f"
    | (other) "to_boolean (get_global w1 ''register_implementors'')"
              "\<not> is_function (get_global w1 ''register_implementors'')"
    using slot_cases [of w1] by blast
  then show "fst (script \<Phi> w1) = fst (script \<Phi> w2)"
  proof cases
    case falsy
    with same show ?thesis by (simp add: script_pending_branch)
  next
    case callee
    with same have "get_global w2 ''register_implementors'' = JFunction f" by simp
    with callee show ?thesis by (simp add: script_call_branch)
  next
    case other
    with same show ?thesis by (simp add: script_type_error)
  qed
next
  fix f
  assume both: "get_global w1 ''register_implementors'' = JFunction f \<and>
                get_global w2 ''register_implementors'' = JFunction f"
  then have run1: "script \<Phi> w1 = ([Invoke f [implementors]], outcome_of (\<Phi> f [implementors] w1))"
    by (simp add: script_call_branch)
  from both have run2: "script \<Phi> w2 = ([Invoke f [implementors]], outcome_of (\<Phi> f [implementors] w2))"
    by (simp add: script_call_branch)
  from run1 show "fst (script \<Phi> w1) = [Invoke f [implementors]]" by simp
  from run1 show "snd (script \<Phi> w1) = outcome_of (\<Phi> f [implementors] w1)" by simp
  from run2 show "snd (script \<Phi> w2) = outcome_of (\<Phi> f [implementors] w2)" by simp
  assume "\<Phi> f [implementors] w1 = \<Phi> f [implementors] w2"
  with run1 run2 show "script \<Phi> w1 = script \<Phi> w2" by simp
next
  assume h: "slots w1 = slots w2 \<and> \<not> is_function (get_global w1 ''register_implementors'')"
  then have same: "get_global w1 ''register_implementors'' = get_global w2 ''register_implementors''"
    by (simp add: slots_def)
  show "final_slots (snd (script \<Phi> w1)) = final_slots (snd (script \<Phi> w2))"
  proof (cases "to_boolean (get_global w1 ''register_implementors'')")
    case True
    with h same show ?thesis by (simp add: script_type_error)
  next
    case False
    with same show ?thesis
      by (simp add: script_pending_branch slots_def get_global_def set_global_def)
  qed
next
  assume "w1 = w2"
  then show "script \<Phi> w1 = script \<Phi> w2" by simp
qed

text \<open>
  Two states that hold the same callback and differ in another global: the same single
  call with the table, and, with a consumer whose call ends in the same state from both,
  the same run.
\<close>

theorem shim_deterministic_witness:
  "get_global other_a_world ''register_implementors'' = JFunction 0 \<and>
   get_global other_b_world ''register_implementors'' = JFunction 0 \<and>
   other_a_world \<noteq> other_b_world \<and>
   fst (script copying_host other_a_world) = fst (script copying_host other_b_world) \<and>
   fst (script copying_host other_a_world) = [Invoke 0 [implementors]] \<and>
   clearing_host 0 [implementors] other_a_world = clearing_host 0 [implementors] other_b_world \<and>
   script clearing_host other_a_world = script clearing_host other_b_world"
proof -
  have a: "get_global other_a_world ''register_implementors'' = JFunction 0"
    by (simp add: other_a_world_def get_global_def)
  have b: "get_global other_b_world ''register_implementors'' = JFunction 0"
    by (simp add: other_b_world_def get_global_def)
  have differ: "other_a_world \<noteq> other_b_world"
  proof
    assume "other_a_world = other_b_world"
    then have "window other_a_world ''other'' = window other_b_world ''other''" by simp
    then show False by (simp add: other_a_world_def other_b_world_def)
  qed
  have same_call:
    "clearing_host 0 [implementors] other_a_world = clearing_host 0 [implementors] other_b_world"
    by (simp add: clearing_host_def set_global_def other_a_world_def other_b_world_def)
  from a b shim_deterministic [of other_a_world other_b_world copying_host]
  have "fst (script copying_host other_a_world) = fst (script copying_host other_b_world)"
    by simp
  moreover from a b shim_deterministic [of other_a_world other_b_world copying_host]
  have "fst (script copying_host other_a_world) = [Invoke 0 [implementors]]"
    by blast
  moreover from a b same_call shim_deterministic [of other_a_world other_b_world clearing_host]
  have "script clearing_host other_a_world = script clearing_host other_b_world"
    by blast
  ultimately show ?thesis using a b differ same_call by simp
qed

text \<open>
  The two slot values alone do not fix the final state once a callback is called: the
  callback may read any other global. Here both states hold the same callback and the
  same (absent) pending value, and the callback copies \<^verbatim>\<open>window.other\<close> into the
  pending slot.
\<close>

theorem callback_reads_other_state_counterexample:
  "slots other_a_world = slots other_b_world \<and>
   fst (script copying_host other_a_world) = fst (script copying_host other_b_world) \<and>
   final_slots (snd (script copying_host other_a_world)) = Some (JFunction 0, JString ''a'') \<and>
   final_slots (snd (script copying_host other_b_world)) = Some (JFunction 0, JString ''b'') \<and>
   snd (script copying_host other_a_world) \<noteq> snd (script copying_host other_b_world)"
proof -
  have a: "get_global other_a_world ''register_implementors'' = JFunction 0"
    by (simp add: other_a_world_def get_global_def)
  have b: "get_global other_b_world ''register_implementors'' = JFunction 0"
    by (simp add: other_b_world_def get_global_def)
  have same: "slots other_a_world = slots other_b_world"
    by (simp add: slots_def get_global_def other_a_world_def other_b_world_def)
  have run_a: "script copying_host other_a_world =
      ([Invoke 0 [implementors]], outcome_of (copying_host 0 [implementors] other_a_world))"
    using a by (rule script_call_branch)
  have run_b: "script copying_host other_b_world =
      ([Invoke 0 [implementors]], outcome_of (copying_host 0 [implementors] other_b_world))"
    using b by (rule script_call_branch)
  have out_a: "snd (script copying_host other_a_world) =
      Completed (set_global other_a_world ''pending_implementors'' (get_global other_a_world ''other''))"
    using run_a by (simp add: copying_host_def)
  have fin_a: "final_slots (snd (script copying_host other_a_world)) =
      Some (JFunction 0, JString ''a'')"
    unfolding out_a
    by (simp add: set_global_def get_global_def slots_def other_a_world_def)
  have out_b: "snd (script copying_host other_b_world) =
      Completed (set_global other_b_world ''pending_implementors'' (get_global other_b_world ''other''))"
    using run_b by (simp add: copying_host_def)
  have fin_b: "final_slots (snd (script copying_host other_b_world)) =
      Some (JFunction 0, JString ''b'')"
    unfolding out_b
    by (simp add: set_global_def get_global_def slots_def other_b_world_def)
  from fin_a fin_b
  have "snd (script copying_host other_a_world) \<noteq> snd (script copying_host other_b_world)"
    by auto
  with same run_a run_b fin_a fin_b show ?thesis by simp
qed

section \<open>The contents of the table\<close>

text \<open>
  C9. Every record of the constructed table has \<^verbatim>\<open>synthetic\<close> equal to \<^verbatim>\<open>false\<close>; there
  are eleven records.
\<close>

theorem no_synthetic_records:
  "list_all (\<lambda>r. get_member r ''synthetic'' = JBool False) (records_of implementors) \<and>
   length (records_of implementors) = 11"
  by (simp add: records_of_implementors literal_defs)

theorem no_synthetic_records_witness:
  "get_member (hd (records_of implementors)) ''synthetic'' = JBool False"
proof -
  have "hd (records_of implementors) \<in> set (records_of implementors)"
    by (simp add: records_of_implementors literal_defs)
  with no_synthetic_records show ?thesis
    by (simp only: list_all_iff)
qed

text \<open>
  C5. Every record of the constructed table is an object with exactly the three
  properties \<^verbatim>\<open>text\<close>, \<^verbatim>\<open>synthetic\<close> and \<^verbatim>\<open>types\<close>: \<^verbatim>\<open>text\<close> is a string,
  \<^verbatim>\<open>synthetic\<close> is a boolean, and \<^verbatim>\<open>types\<close> is an array of strings, each a
  fully-qualified name (identifiers joined by \<^verbatim>\<open>::\<close>, at least two of them).
\<close>

theorem records_have_three_typed_fields:
  "list_all is_implementor_record (records_of implementors) \<and>
   length (records_of implementors) = 11"
  by (simp add: records_of_implementors literal_defs is_implementor_record_def
      is_qualified_name_def is_identifier_def)

theorem records_have_three_typed_fields_witness:
  "is_implementor_record (last (records_of implementors))"
proof -
  have "last (records_of implementors) \<in> set (records_of implementors)"
    by (simp add: records_of_implementors literal_defs)
  with records_have_three_typed_fields show ?thesis
    by (simp only: list_all_iff)
qed

text \<open>
  C4. The keys of the constructed table are pairwise different; they are the seven
  assigned names in assignment order. Every key holds a non-empty array, which is the
  array literal assigned to it, elements in the order the source lists them (shown here
  by the \<^verbatim>\<open>types\<close> of the records, key by key). This table is what is delivered:
  with a function in the callback slot, the run is the call of that function on the
  argument list holding the table, and it ends as that call on the table ends; with a
  falsy callback slot, the run completes in a world whose pending slot reads as the
  table (and whose callback slot is as before). No action of any run carries anything
  else.
\<close>

theorem table_keys_unique_sequences_ordered:
  "distinct (keys_of implementors) \<and>
   keys_of implementors =
     [''bzip2'', ''flate2'', ''generic_array'', ''regex_syntax'', ''syn'', ''thread_local'', ''zip''] \<and>
   list_all (\<lambda>k. elements (get_member implementors k) \<noteq> []) (keys_of implementors) \<and>
   map (get_member implementors) (keys_of implementors) =
     [bzip2_literal, flate2_literal, generic_array_literal, regex_syntax_literal, syn_literal,
      thread_local_literal, zip_literal] \<and>
   map (\<lambda>k. (k, map (\<lambda>r. get_member r ''types'') (elements (get_member implementors k))))
       (keys_of implementors) =
     [(''bzip2'', [JArray [JString ''bzip2::write::BzEncoder''],
                  JArray [JString ''bzip2::write::BzDecoder'']]),
      (''flate2'', [JArray [JString ''flate2::gz::write::GzEncoder'']]),
      (''generic_array'', [JArray [JString ''generic_array::iter::GenericArrayIter'']]),
      (''regex_syntax'', [JArray [JString ''regex_syntax::ast::Ast''],
                         JArray [JString ''regex_syntax::ast::ClassSet''],
                         JArray [JString ''regex_syntax::hir::Hir'']]),
      (''syn'', [JArray [JString ''syn::parse::ParseBuffer'']]),
      (''thread_local'', [JArray [JString ''thread_local::ThreadLocal'']]),
      (''zip'', [JArray [JString ''zip::read::ZipFile''],
                JArray [JString ''zip::write::ZipWriter'']])] \<and>
   list_all (\<lambda>ev. payload ev = [implementors]) (fst (script \<Phi> w)) \<and>
   (\<forall>f. get_global w ''register_implementors'' = JFunction f \<longrightarrow>
      invocations (fst (script \<Phi> w)) = [(f, [implementors])] \<and>
      snd (script \<Phi> w) = outcome_of (\<Phi> f [implementors] w)) \<and>
   (\<not> to_boolean (get_global w ''register_implementors'') \<longrightarrow>
      stores (fst (script \<Phi> w)) = [(''pending_implementors'', implementors)] \<and>
      final_slots (snd (script \<Phi> w)) =
        Some (get_global w ''register_implementors'', implementors))"
proof -
  have keys: "keys_of implementors =
     [''bzip2'', ''flate2'', ''generic_array'', ''regex_syntax'', ''syn'', ''thread_local'', ''zip'']"
    by (simp add: implementors_props)
  have members: "map (get_member implementors) (keys_of implementors) =
     [bzip2_literal, flate2_literal, generic_array_literal, regex_syntax_literal, syn_literal,
      thread_local_literal, zip_literal]"
    by (simp add: implementors_props)
  have nonempty: "list_all (\<lambda>k. elements (get_member implementors k) \<noteq> []) (keys_of implementors)"
    by (simp add: implementors_props literal_defs)
  have order: "map (\<lambda>k. (k, map (\<lambda>r. get_member r ''types'') (elements (get_member implementors k))))
       (keys_of implementors) =
     [(''bzip2'', [JArray [JString ''bzip2::write::BzEncoder''],
                  JArray [JString ''bzip2::write::BzDecoder'']]),
      (''flate2'', [JArray [JString ''flate2::gz::write::GzEncoder'']]),
      (''generic_array'', [JArray [JString ''generic_array::iter::GenericArrayIter'']]),
      (''regex_syntax'', [JArray [JString ''regex_syntax::ast::Ast''],
                         JArray [JString ''regex_syntax::ast::ClassSet''],
                         JArray [JString ''regex_syntax::hir::Hir'']]),
      (''syn'', [JArray [JString ''syn::parse::ParseBuffer'']]),
      (''thread_local'', [JArray [JString ''thread_local::ThreadLocal'']]),
      (''zip'', [JArray [JString ''zip::read::ZipFile''],
                JArray [JString ''zip::write::ZipWriter'']])]"
    by (simp add: implementors_props literal_defs)
  consider (falsy) "\<not> to_boolean (get_global w ''register_implementors'')"
    | (callee) f where "get_global w ''register_implementors'' = JFunction f"
    | (other) "to_boolean (get_global w ''register_implementors'')"
              "\<not> is_function (get_global w ''register_implementors'')"
    using slot_cases [of w] by blast
  then have carried: "list_all (\<lambda>ev. payload ev = [implementors]) (fst (script \<Phi> w))"
    by cases (simp_all add: script_pending_branch script_call_branch script_type_error)
  have to_callback:
    "\<forall>f. get_global w ''register_implementors'' = JFunction f \<longrightarrow>
       invocations (fst (script \<Phi> w)) = [(f, [implementors])] \<and>
       snd (script \<Phi> w) = outcome_of (\<Phi> f [implementors] w)"
    by (simp add: script_call_branch)
  have to_pending:
    "\<not> to_boolean (get_global w ''register_implementors'') \<longrightarrow>
       stores (fst (script \<Phi> w)) = [(''pending_implementors'', implementors)] \<and>
       final_slots (snd (script \<Phi> w)) =
         Some (get_global w ''register_implementors'', implementors)"
    by (simp add: script_pending_branch slots_def get_global_def set_global_def)
  from keys have "distinct (keys_of implementors)" by simp
  with keys members nonempty order carried to_callback to_pending show ?thesis by blast
qed

text \<open>
  A consumer that files its argument list under \<^verbatim>\<open>window.received\<close> finds the table
  there after the run; on a page without a consumer the pending slot reads as the table.
\<close>

theorem table_keys_unique_sequences_ordered_witness:
  "get_global hooked_world ''register_implementors'' = JFunction 0 \<and>
   invocations (fst (script keeping_host hooked_world)) = [(0, [implementors])] \<and>
   snd (script keeping_host hooked_world) =
     Completed (set_global hooked_world ''received'' (JArray [implementors])) \<and>
   get_global (set_global hooked_world ''received'' (JArray [implementors])) ''received'' =
     JArray [implementors] \<and>
   \<not> to_boolean (get_global blank_world ''register_implementors'') \<and>
   final_slots (snd (script keeping_host blank_world)) = Some (JUndefined, implementors) \<and>
   elements (get_member implementors ''zip'') \<noteq> []"
proof -
  have hooked: "get_global hooked_world ''register_implementors'' = JFunction 0"
    by (simp add: hooked_world_def get_global_def)
  have blank: "get_global blank_world ''register_implementors'' = JUndefined"
    by (simp add: blank_world_def get_global_def)
  from hooked table_keys_unique_sequences_ordered [of keeping_host hooked_world]
  have "invocations (fst (script keeping_host hooked_world)) = [(0, [implementors])]"
    and "snd (script keeping_host hooked_world) =
           outcome_of (keeping_host 0 [implementors] hooked_world)"
    by simp_all
  then have call: "invocations (fst (script keeping_host hooked_world)) = [(0, [implementors])]"
    and ends: "snd (script keeping_host hooked_world) =
           Completed (set_global hooked_world ''received'' (JArray [implementors]))"
    by (simp_all add: keeping_host_def)
  have received:
    "get_global (set_global hooked_world ''received'' (JArray [implementors])) ''received'' =
       JArray [implementors]"
    by (simp add: set_global_def get_global_def)
  from blank table_keys_unique_sequences_ordered [of keeping_host blank_world]
  have pending: "final_slots (snd (script keeping_host blank_world)) = Some (JUndefined, implementors)"
    by simp
  have "''zip'' \<in> set (keys_of implementors)"
    by (simp add: implementors_props)
  with table_keys_unique_sequences_ordered [of keeping_host hooked_world]
  have "elements (get_member implementors ''zip'') \<noteq> []"
    by (simp only: list_all_iff) blast
  with hooked blank call ends received pending show ?thesis by simp
qed

end
